theory Spec2Isabelle
  imports Complex_Main
begin

section \<open>Tensors of the computation graph\<close>

text \<open>
  The two modules build nodes of a TensorFlow computation graph: every library call
  (\<^verbatim>\<open>tf.zeros\<close>, \<^verbatim>\<open>tf.concat\<close>, \<^verbatim>\<open>tf.layers.dense\<close>, ...) returns a symbolic tensor
  that records the operation and its operands. A tensor is therefore modelled as the
  term of the graph it stands for, together with the static shape TensorFlow infers for
  it (\<^verbatim>\<open>get_shape()\<close>). A dimension is \<open>Some n\<close> when it is known and \<open>None\<close> when
  it is not (\<^verbatim>\<open>Dimension.value\<close>).

  The library's own validation of operands (incompatible shapes, sizes that are not
  sensible) is not part of these modules and is not modelled: the exceptions of the model
  are the ones the modules' own statements raise.
\<close>

type_synonym dim = "int option"
type_synonym shape = "dim list"

datatype tensor =
    External string shape
  | Zeros "int list"
  | Concat "tensor list" nat
  | Dropout tensor real tensor
  | Dense tensor int "string option"
  | Tanh tensor
  | Relu tensor
  | Maxout tensor int

text \<open>
  \<open>External name s\<close> is a tensor made outside these modules (an encoder's output, the
  recurrent state, an attention context, the training-mode flag) with static shape \<open>s\<close>.
  \<open>Dense x units name\<close> is the affine map \<open>x W + b\<close> onto \<open>units\<close> features with trainable
  \<open>W\<close> and \<open>b\<close> kept under \<open>name\<close>.
\<close>

datatype error = ValueError string | AssertionError | IndexError | TypeError

subsection \<open>Static shapes\<close>

text \<open>Sum of two dimensions (\<^verbatim>\<open>Dimension.__add__\<close>): unknown as soon as one of them is.\<close>

fun add_dim :: "dim \<Rightarrow> dim \<Rightarrow> dim" where
  "add_dim (Some a) (Some b) = Some (a + b)"
| "add_dim _ _ = None"

text \<open>Two dimensions that must agree: the known one wins.\<close>

fun merge_dim :: "dim \<Rightarrow> dim \<Rightarrow> dim" where
  "merge_dim None d = d"
| "merge_dim (Some a) _ = Some a"

text \<open>
  The shape of two tensors joined along \<open>axis\<close>: the sizes along the axis add up, all
  others are merged.
\<close>

fun concat2 :: "nat \<Rightarrow> shape \<Rightarrow> shape \<Rightarrow> shape" where
  "concat2 0 (a # s) (b # t) = add_dim a b # map2 merge_dim s t"
| "concat2 (Suc k) (a # s) (b # t) = merge_dim a b # concat2 k s t"
| "concat2 _ _ _ = []"

fun concat_shape :: "nat \<Rightarrow> shape list \<Rightarrow> shape" where
  "concat_shape axis [] = []"
| "concat_shape axis [s] = s"
| "concat_shape axis (s # ss) = concat2 axis s (concat_shape axis ss)"

fun get_shape :: "tensor \<Rightarrow> shape" where
  "get_shape (External name s) = s"
| "get_shape (Zeros ds) = map Some ds"
| "get_shape (Concat ts axis) = concat_shape axis (map get_shape ts)"
| "get_shape (Dropout x keep_prob train_mode) = get_shape x"
| "get_shape (Dense x units name) = butlast (get_shape x) @ [Some units]"
| "get_shape (Tanh x) = get_shape x"
| "get_shape (Relu x) = get_shape x"
| "get_shape (Maxout x units) = butlast (get_shape x) @ [Some units]"

text \<open>
  \<^verbatim>\<open>shape[i].value\<close>: indexing a shape beyond its rank raises \<^verbatim>\<open>IndexError\<close>.
\<close>

definition shape_getitem :: "shape \<Rightarrow> nat \<Rightarrow> error + dim" where
  "shape_getitem s i = (if i < length s then Inr (s ! i) else Inl IndexError)"


subsection \<open>Library operations\<close>

abbreviation tf_zeros :: "int list \<Rightarrow> tensor" where
  "tf_zeros \<equiv> Zeros"

abbreviation tf_concat :: "tensor list \<Rightarrow> nat \<Rightarrow> tensor" where
  "tf_concat \<equiv> Concat"

abbreviation tf_tanh :: "tensor \<Rightarrow> tensor" where
  "tf_tanh \<equiv> Tanh"

abbreviation tf_nn_relu :: "tensor \<Rightarrow> tensor" where
  "tf_nn_relu \<equiv> Relu"

text \<open>
  \<^verbatim>\<open>tf.layers.dense(inputs, units, activation=None, name=None)\<close>: the affine map,
  followed by the activation when one is given.
\<close>

definition tf_layers_dense ::
  "tensor \<Rightarrow> int \<Rightarrow> (tensor \<Rightarrow> tensor) option \<Rightarrow> string option \<Rightarrow> tensor" where
  "tf_layers_dense inputs units activation name =
     (case activation of
        None \<Rightarrow> Dense inputs units name
      | Some f \<Rightarrow> f (Dense inputs units name))"

text \<open>
  Modelled from the spec: \<^verbatim>\<open>neuralmonkey.nn.utils.dropout\<close> is not among the sources.
  The spec describes it as dropout gated by the training-mode flag; the node keeps the
  tensor, the keep probability and the flag.
\<close>

definition dropout :: "tensor \<Rightarrow> real \<Rightarrow> tensor \<Rightarrow> tensor" where
  "dropout variable keep_prob train_mode = Dropout variable keep_prob train_mode"

section \<open>Encoder projections\<close>

text \<open>
  Modelled from the spec: the class \<^verbatim>\<open>Stateful\<close> is not among the sources. The spec
  gives an encoder's output as a 2-D tensor (batch \<times> feature), read-only and owned by
  the encoder.
\<close>

record stateful =
  output_name :: string
  output_batch :: dim
  output_features :: dim

text \<open>The attribute \<^verbatim>\<open>e.output\<close> (\<open>output\<close> is a reserved word here).\<close>

definition output_tensor :: "stateful \<Rightarrow> tensor" where
  "output_tensor e = External (output_name e) [output_batch e, output_features e]"

definition rnn_size_missing :: error where
  "rnn_size_missing =
     ValueError ''You must supply rnn_size for this type of encoder projection''"

definition encoders_missing :: error where
  "encoders_missing =
     ValueError ''There must be at least one encoder for this type of encoder projection''"

definition empty_initial_state ::
  "tensor \<Rightarrow> int option \<Rightarrow> stateful list option \<Rightarrow> error + tensor" where
  "empty_initial_state train_mode rnn_size encoders =
     (case rnn_size of
        None \<Rightarrow> Inl rnn_size_missing
      | Some n \<Rightarrow> Inr (tf_zeros [n]))"

text \<open>The function \<^verbatim>\<open>func\<close> that \<^verbatim>\<open>linear_encoder_projection\<close> returns.\<close>

definition func ::
  "real \<Rightarrow> tensor \<Rightarrow> int option \<Rightarrow> stateful list option \<Rightarrow> error + tensor" where
  "func dropout_keep_prob train_mode rnn_size encoders =
     (case rnn_size of
        None \<Rightarrow> Inl rnn_size_missing
      | Some n \<Rightarrow>
         (case encoders of
            None \<Rightarrow> Inl encoders_missing
          | Some es \<Rightarrow>
             if es = [] then Inl encoders_missing
             else
               let encoded_concat = tf_concat (map output_tensor es) 1;
                   encoded_concat = dropout encoded_concat dropout_keep_prob train_mode
               in Inr (tf_layers_dense encoded_concat n None
                         (Some ''encoders_projection''))))"

definition linear_encoder_projection ::
  "real \<Rightarrow> tensor \<Rightarrow> int option \<Rightarrow> stateful list option \<Rightarrow> error + tensor" where
  "linear_encoder_projection dropout_keep_prob = func dropout_keep_prob"

subsection \<open>Concatenation\<close>

text \<open>
  Python's \<^verbatim>\<open>str\<close> of an integer, as \<^verbatim>\<open>"{}".format\<close> prints it; \<open>digit_char d\<close> is
  the decimal digit \<open>d\<close>, for \<open>d < 10\<close>.
\<close>

definition digit_char :: "nat \<Rightarrow> char" where
  "digit_char d = ''0123456789'' ! d"

function str_nat :: "nat \<Rightarrow> string" where
  "str_nat n =
     (if n < 10 then [digit_char n] else str_nat (n div 10) @ [digit_char (n mod 10)])"
  by pat_completeness auto
termination
  by (relation "measure id") auto

declare str_nat.simps [simp del]

definition str_int :: "int \<Rightarrow> string" where
  "str_int i = (if i < 0 then CHR ''-'' # str_nat (nat (- i)) else str_nat (nat i))"

definition str_dim :: "dim \<Rightarrow> string" where
  "str_dim d = (case d of None \<Rightarrow> ''None'' | Some n \<Rightarrow> str_int n)"

definition inferred_message :: "dim \<Rightarrow> string" where
  "inferred_message d =
     ''The inferred rnn_size of this encoder projection will be '' @ str_dim d"

text \<open>
  \<^verbatim>\<open>sum(e.output.get_shape()[1].value for e in encoders)\<close>: the sum starts from 0 and
  the widths are read and added one encoder at a time, so the first width that cannot be
  read (\<^verbatim>\<open>IndexError\<close>) or cannot be added (\<^verbatim>\<open>None\<close>, a \<^verbatim>\<open>TypeError\<close>) ends it.
\<close>

fun sum_feature_widths :: "int \<Rightarrow> stateful list \<Rightarrow> error + int" where
  "sum_feature_widths acc [] = Inr acc"
| "sum_feature_widths acc (e # es) =
     (case shape_getitem (get_shape (output_tensor e)) 1 of
        Inl err \<Rightarrow> Inl err
      | Inr None \<Rightarrow> Inl TypeError
      | Inr (Some w) \<Rightarrow> sum_feature_widths (acc + w) es)"

text \<open>
  The \<^verbatim>\<open>assert\<close> on a declared \<^verbatim>\<open>rnn_size\<close>; nothing is checked when it is \<^verbatim>\<open>None\<close>.
\<close>

definition assert_rnn_size :: "int option \<Rightarrow> stateful list \<Rightarrow> error + unit" where
  "assert_rnn_size rnn_size encoders =
     (case rnn_size of
        None \<Rightarrow> Inr ()
      | Some n \<Rightarrow>
         (case sum_feature_widths 0 encoders of
            Inl err \<Rightarrow> Inl err
          | Inr widths \<Rightarrow> if n = widths then Inr () else Inl AssertionError))"

text \<open>
  Modelled from the spec: \<^verbatim>\<open>neuralmonkey.logging.log\<close> is not among the sources. The
  spec says the effective size is logged for diagnostics; the function returns the
  messages it logs next to its tensor.
\<close>

definition concat_encoder_projection ::
  "tensor \<Rightarrow> int option \<Rightarrow> stateful list option \<Rightarrow> error + tensor \<times> string list" where
  "concat_encoder_projection train_mode rnn_size encoders =
     (case encoders of
        None \<Rightarrow> Inl encoders_missing
      | Some es \<Rightarrow>
         if es = [] then Inl encoders_missing
         else
           (case assert_rnn_size rnn_size es of
              Inl err \<Rightarrow> Inl err
            | Inr _ \<Rightarrow>
               let encoded_concat = tf_concat (map output_tensor es) 1
               in (case shape_getitem (get_shape encoded_concat) 1 of
                     Inl err \<Rightarrow> Inl err
                   | Inr d \<Rightarrow> Inr (encoded_concat, [inferred_message d]))))"

section \<open>Output projections\<close>

text \<open>
  An output projection maps the previous state, the previous output, the context tensors
  and the training-mode flag to the output tensor. A factory returns it with the width it
  declares. The factories call \<^verbatim>\<open>check_argument_types()\<close> first, which raises when an
  argument is not of its annotated type; the arguments here are typed, so it never does.
\<close>

type_synonym output_projection = "tensor \<Rightarrow> tensor \<Rightarrow> tensor list \<Rightarrow> tensor \<Rightarrow> tensor"

definition legacy_linear_projection :: "int \<Rightarrow> output_projection" where
  "legacy_linear_projection output_size prev_state prev_output ctx_tensors train_mode =
     (let state_with_ctx = tf_concat ([prev_state] @ ctx_tensors) 1
      in tf_layers_dense state_with_ctx output_size None (Some ''AttnOutputProjection''))"

definition legacy_linear :: "int \<Rightarrow> output_projection \<times> int" where
  "legacy_linear output_size = (legacy_linear_projection output_size, output_size)"

definition legacy_relu_projection :: "int \<Rightarrow> output_projection" where
  "legacy_relu_projection output_size prev_state prev_output ctx_tensors train_mode =
     (let state_with_ctx = tf_concat ([prev_state] @ ctx_tensors) 1
      in tf_layers_dense state_with_ctx output_size (Some tf_nn_relu)
           (Some ''AttnOutputProjection''))"

definition legacy_relu :: "int \<Rightarrow> output_projection \<times> int" where
  "legacy_relu output_size = (legacy_relu_projection output_size, output_size)"

definition nonlinear_projection :: "int \<Rightarrow> (tensor \<Rightarrow> tensor) \<Rightarrow> output_projection" where
  "nonlinear_projection output_size activation_fn prev_state prev_output ctx_tensors
       train_mode =
     (let state_out_ctx = tf_concat ([prev_state, prev_output] @ ctx_tensors) 1
      in tf_layers_dense state_out_ctx output_size (Some activation_fn) None)"

text \<open>An argument left out (\<open>None\<close>) takes the default of the signature.\<close>

definition nonlinear_output ::
  "int \<Rightarrow> (tensor \<Rightarrow> tensor) option \<Rightarrow> output_projection \<times> int" where
  "nonlinear_output output_size activation_fn_arg =
     (let activation_fn = (case activation_fn_arg of None \<Rightarrow> tf_tanh | Some f \<Rightarrow> f)
      in (nonlinear_projection output_size activation_fn, output_size))"

text \<open>
  Modelled from the spec: \<^verbatim>\<open>neuralmonkey.nn.projection.maxout\<close> is not among the
  sources. The spec describes an element-wise maximum over grouped affine projections
  that produces a layer of the configured width.
\<close>

definition maxout :: "tensor \<Rightarrow> int \<Rightarrow> tensor" where
  "maxout inputs units = Maxout inputs units"

definition maxout_projection :: "int \<Rightarrow> output_projection" where
  "maxout_projection maxout_size prev_state prev_output ctx_tensors train_mode =
     (let state_out_ctx = tf_concat ([prev_state, prev_output] @ ctx_tensors) 1
      in maxout state_out_ctx maxout_size)"

definition maxout_output :: "int \<Rightarrow> output_projection \<times> int" where
  "maxout_output maxout_size = (maxout_projection maxout_size, maxout_size)"

text \<open>
  Modelled from the spec: \<^verbatim>\<open>neuralmonkey.nn.projection.multilayer_projection\<close> is not
  among the sources. The spec describes a stack of dense layers of the listed sizes with
  a shared activation function and dropout at each layer gated by the training-mode flag,
  all under one naming scope.
\<close>

fun multilayer_projection ::
  "tensor \<Rightarrow> int list \<Rightarrow> (tensor \<Rightarrow> tensor) \<Rightarrow> real \<Rightarrow> tensor \<Rightarrow> string \<Rightarrow> tensor" where
  "multilayer_projection inputs [] activation dropout_keep_prob train_mode scope = inputs"
| "multilayer_projection inputs (n # layer_sizes) activation dropout_keep_prob train_mode
       scope =
     multilayer_projection
       (dropout (tf_layers_dense inputs n (Some activation) (Some scope))
          dropout_keep_prob train_mode)
       layer_sizes activation dropout_keep_prob train_mode scope"

definition mlp_projection ::
  "int list \<Rightarrow> (tensor \<Rightarrow> tensor) \<Rightarrow> real \<Rightarrow> output_projection" where
  "mlp_projection layer_sizes activation dropout_keep_prob prev_state prev_output
       ctx_tensors train_mode =
     (let mlp_input = tf_concat ([prev_state, prev_output] @ ctx_tensors) 1
      in multilayer_projection mlp_input layer_sizes activation dropout_keep_prob
           train_mode ''deep_output_mlp'')"

text \<open>\<^verbatim>\<open>xs[-1]\<close>: the last element, an \<^verbatim>\<open>IndexError\<close> on the empty list.\<close>

definition getitem_last :: "'a list \<Rightarrow> error + 'a" where
  "getitem_last xs = (if xs = [] then Inl IndexError else Inr (last xs))"

definition mlp_output ::
  "int list \<Rightarrow> (tensor \<Rightarrow> tensor) option \<Rightarrow> real option
     \<Rightarrow> error + output_projection \<times> int" where
  "mlp_output layer_sizes activation_arg dropout_keep_prob_arg =
     (let activation = (case activation_arg of None \<Rightarrow> tf_tanh | Some f \<Rightarrow> f);
          dropout_keep_prob = (case dropout_keep_prob_arg of None \<Rightarrow> 1 | Some p \<Rightarrow> p)
      in (case getitem_last layer_sizes of
            Inl err \<Rightarrow> Inl err
          | Inr width \<Rightarrow>
              Inr (mlp_projection layer_sizes activation dropout_keep_prob, width)))"

section \<open>Properties\<close>

subsection \<open>Shapes of concatenated encoder outputs\<close>

text \<open>
  The sum of a list of dimensions, and the dimension a list of dimensions agrees on: what
  joining 2-D tensors along the feature axis does to their widths and to their batch
  sizes.
\<close>

definition sum_dims :: "dim list \<Rightarrow> dim" where
  "sum_dims ds = foldr add_dim ds (Some 0)"

definition merge_dims :: "dim list \<Rightarrow> dim" where
  "merge_dims ds = foldr merge_dim ds None"

lemma add_dim_zero [simp]: "add_dim d (Some 0) = d"
  by (cases d) simp_all

lemma merge_dim_None [simp]: "merge_dim d None = d"
  by (cases d) simp_all

lemma sum_dims_simps [simp]:
  "sum_dims [] = Some 0" "sum_dims (d # ds) = add_dim d (sum_dims ds)"
  by (simp_all add: sum_dims_def)

lemma merge_dims_simps [simp]:
  "merge_dims [] = None" "merge_dims (d # ds) = merge_dim d (merge_dims ds)"
  by (simp_all add: merge_dims_def)


lemma concat_shape_outputs:
  "es \<noteq> [] \<Longrightarrow>
   concat_shape 1 (map (\<lambda>e. get_shape (output_tensor e)) es) =
     [merge_dims (map output_batch es), sum_dims (map output_features es)]"
proof (induction es)
  case Nil
  then show ?case by simp
next
  case (Cons e es)
  show ?case
  proof (cases es)
    case Nil
    then show ?thesis by (simp add: output_tensor_def)
  next
    case (Cons e' es')
    with Cons.IH have "concat_shape 1 (map (\<lambda>e. get_shape (output_tensor e)) es) =
      [merge_dims (map output_batch es), sum_dims (map output_features es)]" by simp
    with Cons show ?thesis by (simp add: output_tensor_def)
  qed
qed

lemma get_shape_concat_outputs:
  "es \<noteq> [] \<Longrightarrow>
   get_shape (tf_concat (map output_tensor es) 1) =
     [merge_dims (map output_batch es), sum_dims (map output_features es)]"
  using concat_shape_outputs [of es] by (simp add: comp_def)


subsection \<open>Zero initial state\<close>



subsection \<open>Linear projection\<close>








subsection \<open>Concatenation\<close>





subsection \<open>Rank of the initial state\<close>

text \<open>
  Claim C9 says that every encoder projection that does not raise returns a 2-D tensor.
  This fails for the zero initial state: \<^verbatim>\<open>tf.zeros([rnn_size])\<close> is a vector, as the
  function's documentation says ("Return an empty vector").
\<close>

theorem empty_initial_state_rank_counterexample:
  "empty_initial_state (External ''train_mode'' []) (Some 3) None = Inr (Zeros [3]) \<and>
   get_shape (Zeros [3]) = [Some 3] \<and>
   length (get_shape (Zeros [3])) \<noteq> 2"
  by (simp add: empty_initial_state_def)

text \<open>
  Claim C9, amended. When they do not raise, the linear projection and the concatenation
  return a 2-D tensor, and the zero initial state returns a 1-D tensor of shape
  \<open>[rnn_size]\<close>.
\<close>

theorem encoder_projection_ranks:
  "(empty_initial_state train_mode rnn_size encoders = Inr t \<longrightarrow>
      get_shape t = [rnn_size] \<and> length (get_shape t) = 1) \<and>
   (linear_encoder_projection dropout_keep_prob train_mode rnn_size encoders = Inr t \<longrightarrow>
      length (get_shape t) = 2) \<and>
   (concat_encoder_projection train_mode rnn_size encoders = Inr (t, messages) \<longrightarrow>
      length (get_shape t) = 2)"
proof -
  have zero: "get_shape t = [rnn_size] \<and> length (get_shape t) = 1"
    if "empty_initial_state train_mode rnn_size encoders = Inr t"
    using that by (auto simp add: empty_initial_state_def split: option.splits)
  have linear: "length (get_shape t) = 2"
    if "linear_encoder_projection dropout_keep_prob train_mode rnn_size encoders = Inr t"
  proof -
    from that obtain n es where args: "rnn_size = Some n" "encoders = Some es" "es \<noteq> []"
      by (auto simp add: linear_encoder_projection_def func_def
          split: option.splits if_splits)
    with that have "t = Dense (Dropout (Concat (map output_tensor es) 1)
        dropout_keep_prob train_mode) n (Some ''encoders_projection'')"
      by (simp add: linear_encoder_projection_def func_def dropout_def tf_layers_dense_def)
    with get_shape_concat_outputs [OF args(3)] show ?thesis by simp
  qed
  have concat: "length (get_shape t) = 2"
    if "concat_encoder_projection train_mode rnn_size encoders = Inr (t, messages)"
  proof -
    from that obtain es where args: "encoders = Some es" "es \<noteq> []"
      by (auto simp add: concat_encoder_projection_def split: option.splits if_splits)
    with that have "t = Concat (map output_tensor es) 1"
      by (auto simp add: concat_encoder_projection_def Let_def simp del: get_shape.simps
          split: sum.splits)
    with get_shape_concat_outputs [OF args(2)] show ?thesis by simp
  qed
  from zero linear concat show ?thesis by blast
qed

theorem encoder_projection_ranks_witness:
  "empty_initial_state (External ''train_mode'' []) (Some 3) None = Inr (Zeros [3]) \<and>
   length (get_shape (Zeros [3])) = 1 \<and>
   linear_encoder_projection (1 / 2) (External ''train_mode'' []) (Some 8)
     (Some [\<lparr>output_name = ''a'', output_batch = None, output_features = Some 3\<rparr>,
            \<lparr>output_name = ''b'', output_batch = Some 5, output_features = Some 4\<rparr>]) =
     Inr (Dense (Dropout (Concat [External ''a'' [None, Some 3],
                                  External ''b'' [Some 5, Some 4]] 1)
                   (1 / 2) (External ''train_mode'' []))
            8 (Some ''encoders_projection'')) \<and>
   length (get_shape (Dense (Dropout (Concat [External ''a'' [None, Some 3],
                                              External ''b'' [Some 5, Some 4]] 1)
                               (1 / 2) (External ''train_mode'' []))
                        8 (Some ''encoders_projection''))) = 2 \<and>
   concat_encoder_projection (External ''train_mode'' []) None
     (Some [\<lparr>output_name = ''a'', output_batch = None, output_features = Some 3\<rparr>,
            \<lparr>output_name = ''b'', output_batch = Some 5, output_features = Some 4\<rparr>]) =
     Inr (Concat [External ''a'' [None, Some 3], External ''b'' [Some 5, Some 4]] 1,
          [''The inferred rnn_size of this encoder projection will be 7'']) \<and>
   length (get_shape
     (Concat [External ''a'' [None, Some 3], External ''b'' [Some 5, Some 4]] 1)) = 2"
  using encoder_projection_ranks
    [where train_mode = "External ''train_mode'' []" and rnn_size = "Some 3"
       and encoders = None and t = "Zeros [3]"]
    encoder_projection_ranks
    [where train_mode = "External ''train_mode'' []" and rnn_size = "Some 8"
       and dropout_keep_prob = "1 / 2"
       and encoders = "Some
         [\<lparr>output_name = ''a'', output_batch = None, output_features = Some 3\<rparr>,
          \<lparr>output_name = ''b'', output_batch = Some 5, output_features = Some 4\<rparr>]"
       and t = "Dense (Dropout (Concat [External ''a'' [None, Some 3],
                                        External ''b'' [Some 5, Some 4]] 1)
                         (1 / 2) (External ''train_mode'' []))
                  8 (Some ''encoders_projection'')"]
    encoder_projection_ranks
    [where train_mode = "External ''train_mode'' []" and rnn_size = None
       and encoders = "Some
         [\<lparr>output_name = ''a'', output_batch = None, output_features = Some 3\<rparr>,
          \<lparr>output_name = ''b'', output_batch = Some 5, output_features = Some 4\<rparr>]"
       and t = "Concat [External ''a'' [None, Some 3], External ''b'' [Some 5, Some 4]] 1"
       and messages = "[''The inferred rnn_size of this encoder projection will be 7'']"]
  by (simp add: empty_initial_state_def linear_encoder_projection_def func_def dropout_def
      tf_layers_dense_def concat_encoder_projection_def assert_rnn_size_def
      shape_getitem_def output_tensor_def inferred_message_def str_dim_def str_int_def
      str_nat.simps digit_char_def)

subsection \<open>Output projections\<close>

text \<open>
  Claim C6. The legacy linear and legacy ReLU projections join the previous state and the
  context tensors along axis 1 (the previous output is not among the operands), apply one
  affine map onto \<open>output_size\<close> features, followed by ReLU in the ReLU variant, and each
  factory returns its projection paired with \<open>output_size\<close>.
\<close>

theorem legacy_projections:
  "fst (legacy_linear output_size) prev_state prev_output ctx_tensors train_mode =
     Dense (Concat (prev_state # ctx_tensors) 1) output_size (Some ''AttnOutputProjection'') \<and>
   snd (legacy_linear output_size) = output_size \<and>
   fst (legacy_relu output_size) prev_state prev_output ctx_tensors train_mode =
     Relu (Dense (Concat (prev_state # ctx_tensors) 1) output_size
             (Some ''AttnOutputProjection'')) \<and>
   snd (legacy_relu output_size) = output_size \<and>
   last (get_shape
     (fst (legacy_linear output_size) prev_state prev_output ctx_tensors train_mode)) =
     Some output_size \<and>
   last (get_shape
     (fst (legacy_relu output_size) prev_state prev_output ctx_tensors train_mode)) =
     Some output_size"
  by (simp add: legacy_linear_def legacy_linear_projection_def legacy_relu_def
      legacy_relu_projection_def tf_layers_dense_def del: get_shape.simps(3))

text \<open>
  Claim C7. The nonlinear and maxout projections join the previous state, the previous
  output and the context tensors along axis 1, for any list of context tensors.
  \<open>nonlinear_output\<close> then applies one dense layer with the given activation, the
  hyperbolic tangent by default, and declares the width \<open>output_size\<close>; \<open>maxout_output\<close>
  applies maxout and declares the width \<open>maxout_size\<close>.
\<close>

theorem nonlinear_and_maxout_projections:
  "fst (nonlinear_output output_size None) prev_state prev_output ctx_tensors train_mode =
     Tanh (Dense (Concat (prev_state # prev_output # ctx_tensors) 1) output_size None) \<and>
   fst (nonlinear_output output_size (Some activation_fn)) prev_state prev_output
       ctx_tensors train_mode =
     activation_fn
       (Dense (Concat (prev_state # prev_output # ctx_tensors) 1) output_size None) \<and>
   snd (nonlinear_output output_size activation_fn_arg) = output_size \<and>
   fst (maxout_output maxout_size) prev_state prev_output ctx_tensors train_mode =
     Maxout (Concat (prev_state # prev_output # ctx_tensors) 1) maxout_size \<and>
   snd (maxout_output maxout_size) = maxout_size"
  by (simp add: nonlinear_output_def nonlinear_projection_def maxout_output_def
      maxout_projection_def maxout_def tf_layers_dense_def)

text \<open>
  Claim C8. For a nonempty \<open>layer_sizes\<close>, \<open>mlp_output\<close> returns its projection paired with
  the last element of \<open>layer_sizes\<close>; for the empty list it fails with \<^verbatim>\<open>IndexError\<close>
  when the factory is called and returns no projection.
\<close>

theorem mlp_output_width:
  "(layer_sizes \<noteq> [] \<longrightarrow>
      mlp_output layer_sizes activation dropout_keep_prob =
        Inr (mlp_projection layer_sizes
               (case activation of None \<Rightarrow> tf_tanh | Some f \<Rightarrow> f)
               (case dropout_keep_prob of None \<Rightarrow> 1 | Some p \<Rightarrow> p),
             last layer_sizes)) \<and>
   mlp_output [] activation dropout_keep_prob = Inl IndexError"
  by (simp add: mlp_output_def getitem_last_def)

theorem mlp_output_width_witness:
  "[3, 4] \<noteq> ([] :: int list) \<and>
   map_sum id snd (mlp_output [3, 4] None None) = Inr 4 \<and>
   mlp_output [] None (Some (1 / 2)) = Inl IndexError"
  using mlp_output_width [of "[3, 4]" None None] mlp_output_width [of "[]" None "Some (1 / 2)"]
  by simp

text \<open>
  With the default activation, the tensor the multilayer projection builds has the width
  that \<open>mlp_output\<close> declares.
\<close>

lemma multilayer_projection_width:
  "layer_sizes \<noteq> [] \<Longrightarrow>
   last (get_shape (multilayer_projection inputs layer_sizes tf_tanh keep_prob train_mode
     scope)) = Some (last layer_sizes)"
proof (induction layer_sizes arbitrary: inputs)
  case Nil
  then show ?case by simp
next
  case (Cons n layer_sizes)
  then show ?case
    by (cases layer_sizes) (simp_all add: dropout_def tf_layers_dense_def)
qed

text \<open>
  Claim C10. The legacy linear and legacy ReLU projections do not depend on the previous
  output nor on the training-mode flag, and the maxout projection does not depend on the
  training-mode flag: calls that agree on the other arguments return the same tensor.
\<close>

theorem projections_ignore_arguments:
  "fst (legacy_linear output_size) prev_state prev_output ctx_tensors train_mode =
     fst (legacy_linear output_size) prev_state prev_output' ctx_tensors train_mode' \<and>
   fst (legacy_relu output_size) prev_state prev_output ctx_tensors train_mode =
     fst (legacy_relu output_size) prev_state prev_output' ctx_tensors train_mode' \<and>
   fst (maxout_output maxout_size) prev_state prev_output ctx_tensors train_mode =
     fst (maxout_output maxout_size) prev_state prev_output ctx_tensors train_mode'"
  by (simp add: legacy_linear_def legacy_linear_projection_def legacy_relu_def
      legacy_relu_projection_def maxout_output_def maxout_projection_def)

end
